theory Spec2Isabelle
  imports Main "HOL-Library.Sublist"
begin

section \<open>JavaScript strings and values\<close>

text \<open>
  Strings are lists of code units (\<^typ>\<open>char\<close>, the range 0..255). Where the code only
  tests a value for truthiness or passes it on, a value that may be \<open>undefined\<close> or \<open>null\<close>
  is an \<^typ>\<open>'a option\<close>. A string is truthy when it is not empty; \<open>undefined\<close> and \<open>null\<close>
  are falsy. Where the code compares with \<open>!==\<close>, \<open>undefined\<close> and \<open>null\<close> are kept
  apart: they are different values.
\<close>

datatype 'a optional = Undefined | Null | Val 'a


definition truthy :: "string option \<Rightarrow> bool" where
  "truthy v = (case v of None \<Rightarrow> False | Some s \<Rightarrow> s \<noteq> [])"

text \<open>\<open>v || d\<close> on a string that may be missing.\<close>

definition or_default :: "string option \<Rightarrow> string \<Rightarrow> string" where
  "or_default v d = (case v of None \<Rightarrow> d | Some s \<Rightarrow> if s = [] then d else s)"

text \<open>\<open>String.prototype.trim\<close>: the white space and line terminators below 256.\<close>

definition is_whitespace :: "char \<Rightarrow> bool" where
  "is_whitespace c =
     (c = CHR 0x09 \<or> c = CHR 0x0A \<or> c = CHR 0x0B \<or> c = CHR 0x0C \<or> c = CHR 0x0D \<or>
      c = CHR 0x20 \<or> c = CHR 0xA0)"

definition trim :: "string \<Rightarrow> string" where
  "trim s = rev (dropWhile is_whitespace (rev (dropWhile is_whitespace s)))"

text \<open>Template literals print a non-negative integer in decimal.\<close>

definition digit_char :: "nat \<Rightarrow> char" where
  "digit_char n = ''0123456789'' ! n"

fun show_nat :: "nat \<Rightarrow> string" where
  "show_nat n = (if n < 10 then [digit_char n] else show_nat (n div 10) @ [digit_char (n mod 10)])"

declare show_nat.simps [simp del]

definition show_int :: "int \<Rightarrow> string" where
  "show_int i = (if i < 0 then CHR ''-'' # show_nat (nat (- i)) else show_nat (nat i))"

text \<open>
  The errors the client meets: the \<open>Error\<close> it throws itself and the \<open>SyntaxError\<close> with
  which \<open>response.json()\<close> rejects a body that is not JSON. Both are instances of
  \<open>Error\<close> and carry a message.
\<close>

datatype js_error = Error string | SyntaxError string

fun error_message :: "js_error \<Rightarrow> string" where
  "error_message (Error m) = m"
| "error_message (SyntaxError m) = m"

section \<open>JSON.stringify\<close>

datatype json =
    JNull
  | JBool bool
  | JNum int
  | JStr string
  | JArr "json list"
  | JObj "(string \<times> json) list"

definition hex_digit :: "nat \<Rightarrow> char" where
  "hex_digit n = ''0123456789abcdef'' ! n"

text \<open>
  \<open>QuoteJSONString\<close>: the quotation mark, the backslash and the control characters are
  escaped, every other code unit is copied.
\<close>

definition escape_char :: "char \<Rightarrow> string" where
  "escape_char c =
     (if c = CHR 0x22 then [CHR 0x5C, CHR 0x22]
      else if c = CHR 0x5C then [CHR 0x5C, CHR 0x5C]
      else if c = CHR 0x08 then [CHR 0x5C, CHR ''b'']
      else if c = CHR 0x09 then [CHR 0x5C, CHR ''t'']
      else if c = CHR 0x0A then [CHR 0x5C, CHR ''n'']
      else if c = CHR 0x0C then [CHR 0x5C, CHR ''f'']
      else if c = CHR 0x0D then [CHR 0x5C, CHR ''r'']
      else if (of_char c :: nat) < 32 then
        [CHR 0x5C, CHR ''u'', CHR ''0'', CHR ''0'',
         hex_digit (of_char c div 16), hex_digit (of_char c mod 16)]
      else [c])"

definition quote :: "string \<Rightarrow> string" where
  "quote s = CHR 0x22 # concat (map escape_char s) @ [CHR 0x22]"

fun join_comma :: "string list \<Rightarrow> string" where
  "join_comma [] = []"
| "join_comma [x] = x"
| "join_comma (x # y # ys) = x @ CHR '','' # join_comma (y # ys)"

fun JSON_stringify :: "json \<Rightarrow> string" where
  "JSON_stringify JNull = ''null''"
| "JSON_stringify (JBool b) = (if b then ''true'' else ''false'')"
| "JSON_stringify (JNum i) = show_int i"
| "JSON_stringify (JStr s) = quote s"
| "JSON_stringify (JArr xs) = CHR ''['' # join_comma (map JSON_stringify xs) @ '']''"
| "JSON_stringify (JObj kvs) =
     CHR ''{'' # join_comma (map (\<lambda>(k, v). quote k @ CHR '':'' # JSON_stringify v) kvs) @ ''}''"






text \<open>\<open>JSON.stringify(undefined)\<close> is \<open>undefined\<close>.\<close>

definition JSON_stringify_opt :: "json option \<Rightarrow> string option" where
  "JSON_stringify_opt v = map_option JSON_stringify v"

section \<open>The API client (lib/api.ts)\<close>

datatype TaskStatus = running | completed | failed

text \<open>
  A task as \<open>json()\<close> delivers it. The fields the panel compares with \<open>!==\<close> are
  \<^typ>\<open>string optional\<close>. The feedback history is kept as the parsed JSON value, its
  objects with their keys in their own order, since the panel compares its
  \<open>JSON.stringify\<close> text; \<open>None\<close> is \<open>undefined\<close> and \<open>Some JNull\<close> is \<open>null\<close>.
\<close>

record Task =
  id' :: string
  task :: string
  status :: TaskStatus
  start_time :: string
  end_time :: "string optional"
  output' :: "string optional"
  error :: "string optional"
  return_code :: "int option"
  temp_dir :: "string option"
  session_id :: "string option"
  original_task :: "string option"
  feedback_history :: "json option"

record TaskListResponse =
  tasks :: "Task list"
  total :: int

record ExecuteTaskResponse =
  task_id :: string
  message :: string

record TaskFile =
  path :: string
  name :: string
  type :: string
  content :: string
  size :: int

datatype ContentType = files | diff

datatype Content = Files "TaskFile list" | Diff string

record TaskContentResponse =
  task_id :: string
  is_git_repo :: bool
  content_type :: ContentType
  content :: "Content option"
  count :: "int option"

record DeleteTaskResponse =
  message :: string
  task_id :: string

record CreatePRRequest =
  github_token :: string
  pr_title :: "string option"
  pr_body :: "string option"

record CreatePRResponse =
  success :: bool
  pr_url :: "string option"
  pr_number :: "int option"
  branch_name :: "string option"
  message :: "string option"
  error :: "string option"

record FeedbackRequest =
  feedback :: string

record FeedbackResponse =
  success :: bool
  feedback_task_id :: string
  message :: string
  error :: "string option"

text \<open>
  The bodies of \<open>GET /running\<close> and \<open>GET /completed\<close> are read through the two fields
  the client accesses.
\<close>

record RunningTasksData =
  running_tasks :: "Task list"
  count :: int

record CompletedTasksData =
  completed_tasks :: "Task list"
  count :: int

text \<open>
  A call of \<open>fetch\<close>: the request that goes out and the response that comes back. The
  response carries \<open>ok\<close>, \<open>status\<close> and the outcome of \<open>json()\<close>: \<open>Inr\<close> the parsed body,
  at the type the client declares for it, or \<open>Inl\<close> the \<open>SyntaxError\<close> it rejects with when
  the body is not JSON. Every method of the client returns the requests it has issued
  together with its result, \<open>Inl\<close> for a thrown error.
\<close>

record Request =
  url :: string
  method' :: string
  headers :: "(string \<times> string) list"
  body :: "string option"

record 'a Response =
  ok :: bool
  status :: nat
  json :: "js_error + 'a"

type_synonym 'a fetch = "Request \<Rightarrow> 'a Response"

definition http_error :: "'a Response \<Rightarrow> js_error" where
  "http_error response = Error (''HTTP error! status: '' @ show_nat (Response.status response))"

definition get_request :: "string \<Rightarrow> Request" where
  "get_request u = \<lparr>url = u, method' = ''GET'', headers = [], body = None\<rparr>"

definition post_json :: "string \<Rightarrow> json \<Rightarrow> Request" where
  "post_json u j =
     \<lparr>url = u, method' = ''POST'', headers = [(''Content-Type'', ''application/json'')],
      body = Some (JSON_stringify j)\<rparr>"

definition ApiClient_executeTask ::
  "string \<Rightarrow> ExecuteTaskResponse fetch \<Rightarrow> string \<Rightarrow> string option \<Rightarrow>
   Request list \<times> (js_error + ExecuteTaskResponse)" where
  "ApiClient_executeTask baseUrl fetch task' repository =
     (let request = post_json (baseUrl @ ''/execute'')
            (case repository of
               Some r \<Rightarrow>
                 if r \<noteq> [] then JObj [(''task'', JStr task'), (''repository'', JStr r)]
                 else JObj [(''task'', JStr task')]
             | None \<Rightarrow> JObj [(''task'', JStr task')]);
          response = fetch request
      in ([request], if \<not> ok response then Inl (http_error response) else json response))"

definition ApiClient_getTaskStatus ::
  "string \<Rightarrow> Task fetch \<Rightarrow> string \<Rightarrow> Request list \<times> (js_error + Task)" where
  "ApiClient_getTaskStatus baseUrl fetch taskId =
     (let request = get_request (baseUrl @ ''/status/'' @ taskId);
          response = fetch request
      in ([request], if \<not> ok response then Inl (http_error response) else json response))"

definition ApiClient_listAllTasks ::
  "string \<Rightarrow> TaskListResponse fetch \<Rightarrow> Request list \<times> (js_error + TaskListResponse)" where
  "ApiClient_listAllTasks baseUrl fetch =
     (let request = get_request (baseUrl @ ''/tasks'');
          response = fetch request
      in ([request], if \<not> ok response then Inl (http_error response) else json response))"

definition ApiClient_listRunningTasks ::
  "string \<Rightarrow> RunningTasksData fetch \<Rightarrow> Request list \<times> (js_error + TaskListResponse)" where
  "ApiClient_listRunningTasks baseUrl fetch =
     (let request = get_request (baseUrl @ ''/running'');
          response = fetch request
      in ([request],
          if \<not> ok response then Inl (http_error response)
          else case json response of
                 Inl e \<Rightarrow> Inl e
               | Inr data \<Rightarrow>
                   Inr \<lparr>tasks = running_tasks data, total = RunningTasksData.count data\<rparr>))"

definition ApiClient_listCompletedTasks ::
  "string \<Rightarrow> CompletedTasksData fetch \<Rightarrow> Request list \<times> (js_error + TaskListResponse)" where
  "ApiClient_listCompletedTasks baseUrl fetch =
     (let request = get_request (baseUrl @ ''/completed'');
          response = fetch request
      in ([request],
          if \<not> ok response then Inl (http_error response)
          else case json response of
                 Inl e \<Rightarrow> Inl e
               | Inr data \<Rightarrow>
                   Inr \<lparr>tasks = completed_tasks data, total = CompletedTasksData.count data\<rparr>))"

definition ApiClient_getTaskContent ::
  "string \<Rightarrow> TaskContentResponse fetch \<Rightarrow> string \<Rightarrow>
   Request list \<times> (js_error + TaskContentResponse)" where
  "ApiClient_getTaskContent baseUrl fetch taskId =
     (let request = get_request (baseUrl @ ''/content/'' @ taskId);
          response = fetch request
      in ([request], if \<not> ok response then Inl (http_error response) else json response))"


text \<open>
  \<open>JSON.stringify(request)\<close> of a \<open>CreatePRRequest\<close>: a property whose value is
  \<open>undefined\<close> is left out.
\<close>

definition CreatePRRequest_json :: "CreatePRRequest \<Rightarrow> json" where
  "CreatePRRequest_json request =
     JObj ([(''github_token'', JStr (github_token request))]
           @ (case pr_title request of None \<Rightarrow> [] | Some t \<Rightarrow> [(''pr_title'', JStr t)])
           @ (case pr_body request of None \<Rightarrow> [] | Some b \<Rightarrow> [(''pr_body'', JStr b)]))"

definition FeedbackRequest_json :: "FeedbackRequest \<Rightarrow> json" where
  "FeedbackRequest_json request = JObj [(''feedback'', JStr (FeedbackRequest.feedback request))]"

definition ApiClient_createPullRequest ::
  "string \<Rightarrow> CreatePRResponse fetch \<Rightarrow> string \<Rightarrow> CreatePRRequest \<Rightarrow>
   Request list \<times> (js_error + CreatePRResponse)" where
  "ApiClient_createPullRequest baseUrl fetch taskId request =
     (let req = post_json (baseUrl @ ''/create-pr/'' @ taskId) (CreatePRRequest_json request);
          response = fetch req
      in ([req],
          if \<not> ok response then
            (case json response of
               Inl e \<Rightarrow> Inl e
             | Inr errorData \<Rightarrow>
                 Inl (Error (or_default (CreatePRResponse.error errorData)
                                        (error_message (http_error response)))))
          else json response))"

definition ApiClient_sendFeedback ::
  "string \<Rightarrow> FeedbackResponse fetch \<Rightarrow> string \<Rightarrow> FeedbackRequest \<Rightarrow>
   Request list \<times> (js_error + FeedbackResponse)" where
  "ApiClient_sendFeedback baseUrl fetch taskId request =
     (let req = post_json (baseUrl @ ''/feedback/'' @ taskId) (FeedbackRequest_json request);
          response = fetch req
      in ([req],
          if \<not> ok response then
            (case json response of
               Inl e \<Rightarrow> Inl e
             | Inr errorData \<Rightarrow>
                 Inl (Error (or_default (FeedbackResponse.error errorData)
                                        (error_message (http_error response)))))
          else json response))"

text \<open>
  The server as \<open>fetch\<close> sees it: one function per endpoint, at the type of the body the
  client reads from it.
\<close>

record Backend =
  net_execute :: "ExecuteTaskResponse fetch"
  net_status :: "Task fetch"
  net_tasks :: "TaskListResponse fetch"
  net_running :: "RunningTasksData fetch"
  net_completed :: "CompletedTasksData fetch"
  net_content :: "TaskContentResponse fetch"
  net_delete :: "DeleteTaskResponse fetch"
  net_create_pr :: "CreatePRResponse fetch"
  net_feedback :: "FeedbackResponse fetch"

text \<open>What a handler does besides updating the state of its component.\<close>

datatype effect =
    Fetch Request
  | OnTaskSubmitted string
  | WindowOpen string string
  | Alert string

section \<open>The submission form (components/CommandForm.tsx, TaskForm)\<close>

record TaskForm =
  task :: string
  selectedRepo :: string
  isSubmitting :: bool
  error :: "string option"
  success :: "string option"

text \<open>
  \<open>handleSubmit\<close>; \<open>onTaskSubmitted\<close> tells whether the optional callback was given.
\<close>

definition handleSubmit ::
  "string \<Rightarrow> Backend \<Rightarrow> bool \<Rightarrow> TaskForm \<Rightarrow> TaskForm \<times> effect list" where
  "handleSubmit baseUrl net onTaskSubmitted st =
     (if trim (TaskForm.task st) = [] \<or> selectedRepo st = [] then (st, [])
      else
        let st1 = st\<lparr>isSubmitting := True, TaskForm.error := None, TaskForm.success := None\<rparr>;
            (reqs, r) = ApiClient_executeTask baseUrl (net_execute net)
                          (trim (TaskForm.task st)) (Some (selectedRepo st))
        in case r of
             Inr response \<Rightarrow>
               (st1\<lparr>TaskForm.success :=
                       Some (''Task submitted successfully! ID: ''
                             @ ExecuteTaskResponse.task_id response),
                     TaskForm.task := [],
                     isSubmitting := False\<rparr>,
                map Fetch reqs
                @ (if onTaskSubmitted then [OnTaskSubmitted (ExecuteTaskResponse.task_id response)]
                   else []))
           | Inl err \<Rightarrow>
               (st1\<lparr>TaskForm.error := Some (error_message err), isSubmitting := False\<rparr>,
                map Fetch reqs))"

text \<open>The \<open>disabled\<close> attribute of the submit button; \<open>user\<close> tells whether a user is signed in.\<close>

definition submit_disabled :: "bool \<Rightarrow> TaskForm \<Rightarrow> bool" where
  "submit_disabled user st =
     (isSubmitting st \<or> trim (TaskForm.task st) = [] \<or> selectedRepo st = [] \<or> \<not> user)"

section \<open>The task list (components/CommandForm.tsx, TasksList)\<close>

datatype FilterType = filter_all | filter_running | filter_completed

record TasksList =
  tasks :: "Task list"
  loading :: bool
  error :: "string option"
  filter' :: FilterType

definition fetchTasks :: "string \<Rightarrow> Backend \<Rightarrow> TasksList \<Rightarrow> TasksList \<times> Request list" where
  "fetchTasks baseUrl net st =
     (let st1 = st\<lparr>TasksList.error := None\<rparr>;
          (reqs, r) =
            (case filter' st of
               filter_running \<Rightarrow> ApiClient_listRunningTasks baseUrl (net_running net)
             | filter_completed \<Rightarrow> ApiClient_listCompletedTasks baseUrl (net_completed net)
             | filter_all \<Rightarrow> ApiClient_listAllTasks baseUrl (net_tasks net))
      in case r of
           Inr response \<Rightarrow>
             (st1\<lparr>TasksList.tasks := TaskListResponse.tasks response,
                   TasksList.loading := False\<rparr>, reqs)
         | Inl err \<Rightarrow>
             (st1\<lparr>TasksList.error := Some (error_message err), TasksList.loading := False\<rparr>,
              reqs))"

section \<open>The task details panel\<close>

record TaskDetails =
  task :: "Task option"
  currentTask :: "Task option"
  taskContent :: "TaskContentResponse option"
  loading :: bool
  filesLoading :: bool
  error :: "string option"
  isMounted :: bool
  deleting :: bool
  showDeleteConfirm :: bool
  showPRModal :: bool
  creatingPR :: bool
  prTitle :: string
  prBody :: string
  showFeedbackModal :: bool
  feedback :: string
  sendingFeedback :: bool
  showFeedbackSuccess :: bool
  feedbackTaskId :: "string option"

definition fetchTaskData ::
  "string \<Rightarrow> Backend \<Rightarrow> TaskDetails \<Rightarrow> TaskDetails \<times> Request list" where
  "fetchTaskData baseUrl net st =
     (case TaskDetails.task st of
        None \<Rightarrow> (st, [])
      | Some t \<Rightarrow>
          if id' t = [] \<or> \<not> isMounted st then (st, [])
          else
            let st1 = st\<lparr>filesLoading := True, TaskDetails.error := None\<rparr>;
                (reqs, r) = ApiClient_getTaskContent baseUrl (net_content net) (id' t)
            in case r of
                 Inr contentResponse \<Rightarrow>
                   (st1\<lparr>taskContent := Some contentResponse, filesLoading := False\<rparr>, reqs)
               | Inl err \<Rightarrow>
                   (st1\<lparr>TaskDetails.error := Some (error_message err), filesLoading := False\<rparr>,
                    reqs))"

definition hasChanges :: "Task \<Rightarrow> Task \<Rightarrow> bool" where
  "hasChanges updatedTask cur =
     (Task.status updatedTask \<noteq> Task.status cur \<or>
      end_time updatedTask \<noteq> end_time cur \<or>
      output' updatedTask \<noteq> output' cur \<or>
      Task.error updatedTask \<noteq> Task.error cur \<or>
      JSON_stringify_opt (feedback_history updatedTask)
        \<noteq> JSON_stringify_opt (feedback_history cur))"

definition silentRefreshTask ::
  "string \<Rightarrow> Backend \<Rightarrow> TaskDetails \<Rightarrow> TaskDetails \<times> Request list" where
  "silentRefreshTask baseUrl net st =
     (case currentTask st of
        None \<Rightarrow> (st, [])
      | Some cur \<Rightarrow>
          if id' cur = [] \<or> \<not> isMounted st then (st, [])
          else
            let (reqs, r) = ApiClient_getTaskStatus baseUrl (net_status net) (id' cur)
            in case r of
                 Inl err \<Rightarrow> (st, reqs)
               | Inr updatedTask \<Rightarrow>
                   if hasChanges updatedTask cur then
                     let st1 = st\<lparr>currentTask := Some updatedTask\<rparr>
                     in if Task.status updatedTask \<noteq> Task.status cur \<and>
                           (Task.status updatedTask = completed \<or> Task.status updatedTask = failed)
                        then let (st2, reqs2) = fetchTaskData baseUrl net st1
                             in (st2, reqs @ reqs2)
                        else (st1, reqs)
                   else (st, reqs))"

text \<open>The \<open>enabled\<close> option the panel passes to \<open>usePolling\<close>.\<close>

definition pollingEnabled :: "TaskDetails \<Rightarrow> bool" where
  "pollingEnabled st = (case currentTask st of None \<Rightarrow> False | Some t \<Rightarrow> Task.status t = running)"

text \<open>
  One tick of the panel's timer: the callback runs while polling is enabled. In a run of
  ticks every poll settles, and the panel renders, before the next tick; the run meets
  one backend per tick. Ticks that overlap are \<open>overlapping_requests\<close> below.
\<close>

definition poll_tick ::
  "string \<Rightarrow> Backend \<Rightarrow> TaskDetails \<Rightarrow> TaskDetails \<times> Request list" where
  "poll_tick baseUrl net st = (if pollingEnabled st then silentRefreshTask baseUrl net st else (st, []))"

fun run_polls ::
  "string \<Rightarrow> TaskDetails \<Rightarrow> Backend list \<Rightarrow> TaskDetails \<times> Request list" where
  "run_polls baseUrl st [] = (st, [])"
| "run_polls baseUrl st (net # nets) =
     (let (st1, reqs) = poll_tick baseUrl net st;
          (st2, reqs2) = run_polls baseUrl st1 nets
      in (st2, reqs @ reqs2))"

text \<open>
  Two ticks whose polls are in flight together: the timer fires whether or not the poll
  of the tick before has settled, and until the panel renders again the callback is the
  one of the last render, which reads the state of that render. The requests of the two.
\<close>

definition overlapping_requests ::
  "string \<Rightarrow> Backend \<Rightarrow> Backend \<Rightarrow> TaskDetails \<Rightarrow> Request list" where
  "overlapping_requests baseUrl net1 net2 st =
     (if pollingEnabled st
      then snd (silentRefreshTask baseUrl net1 st) @ snd (silentRefreshTask baseUrl net2 st)
      else [])"

text \<open>
  The status a poll of the panel fetches from the backend, when it asks and the answer is
  successful and parses.
\<close>

definition fetched_status :: "string \<Rightarrow> Backend \<Rightarrow> TaskDetails \<Rightarrow> TaskStatus option" where
  "fetched_status baseUrl net st =
     (case currentTask st of
        None \<Rightarrow> None
      | Some cur \<Rightarrow>
          if id' cur = [] \<or> \<not> isMounted st then None
          else
            let response = net_status net (get_request (baseUrl @ ''/status/'' @ id' cur))
            in if \<not> ok response then None
               else case json response of Inl e \<Rightarrow> None | Inr t \<Rightarrow> Some (Task.status t))"

definition is_content_request :: "string \<Rightarrow> Request \<Rightarrow> bool" where
  "is_content_request baseUrl r = (method' r = ''GET'' \<and> prefix (baseUrl @ ''/content/'') (url r))"

definition content_fetches :: "string \<Rightarrow> Request list \<Rightarrow> nat" where
  "content_fetches baseUrl reqs = length (List.filter (is_content_request baseUrl) reqs)"

definition terminal :: "TaskStatus \<Rightarrow> bool" where
  "terminal s = (s = completed \<or> s = failed)"

text \<open>
  A tick meets a transition when the displayed task is running and the poll fetches a
  terminal status. The number of transitions along a run of ticks.
\<close>

definition fetched_transition :: "string \<Rightarrow> Backend \<Rightarrow> TaskDetails \<Rightarrow> bool" where
  "fetched_transition baseUrl net st =
     (pollingEnabled st \<and>
      (case fetched_status baseUrl net st of None \<Rightarrow> False | Some s \<Rightarrow> terminal s))"

fun fetched_transitions :: "string \<Rightarrow> TaskDetails \<Rightarrow> Backend list \<Rightarrow> nat" where
  "fetched_transitions baseUrl st [] = 0"
| "fetched_transitions baseUrl st (net # nets) =
     (if fetched_transition baseUrl net st then 1 else 0)
     + fetched_transitions baseUrl (fst (poll_tick baseUrl net st)) nets"

definition displayed_status :: "TaskDetails \<Rightarrow> TaskStatus option" where
  "displayed_status st = map_option Task.status (currentTask st)"

text \<open>The guard under which the panel renders the Create PR button, and its \<open>disabled\<close>.\<close>

definition showCreatePR :: "string option \<Rightarrow> TaskDetails \<Rightarrow> bool" where
  "showCreatePR accessToken st =
     ((case taskContent st of None \<Rightarrow> False | Some c \<Rightarrow> is_git_repo c) \<and>
      truthy accessToken \<and>
      (case currentTask st of
         None \<Rightarrow> False
       | Some t \<Rightarrow> Task.status t = completed \<or> Task.status t = failed))"

definition createPR_enabled :: "string option \<Rightarrow> TaskDetails \<Rightarrow> bool" where
  "createPR_enabled accessToken st =
     (showCreatePR accessToken st \<and> \<not> (creatingPR st \<or> TaskDetails.loading st))"

definition trim_or_undefined :: "string \<Rightarrow> string option" where
  "trim_or_undefined s = (if trim s = [] then None else Some (trim s))"

definition createPullRequest ::
  "string \<Rightarrow> Backend \<Rightarrow> string option \<Rightarrow> TaskDetails \<Rightarrow> TaskDetails \<times> effect list" where
  "createPullRequest baseUrl net accessToken st =
     (case (currentTask st, accessToken) of
        (Some cur, Some token) \<Rightarrow>
          if id' cur = [] \<or> token = [] then (st, [])
          else
            let st1 = st\<lparr>creatingPR := True, TaskDetails.error := None\<rparr>;
                request = \<lparr>github_token = token,
                           pr_title = trim_or_undefined (prTitle st),
                           pr_body = trim_or_undefined (prBody st)\<rparr>;
                (reqs, r) = ApiClient_createPullRequest baseUrl (net_create_pr net) (id' cur) request
            in (case r of
                  Inr response \<Rightarrow>
                    (case pr_url response of
                       Some pr_url' \<Rightarrow>
                         if CreatePRResponse.success response \<and> pr_url' \<noteq> [] then
                           (st1\<lparr>showPRModal := False, creatingPR := False\<rparr>,
                            map Fetch reqs
                            @ [WindowOpen pr_url' ''_blank'',
                               Alert (''Pull request created successfully! PR #''
                                      @ (case pr_number response of
                                           None \<Rightarrow> ''undefined''
                                         | Some n \<Rightarrow> show_int n))])
                         else (st1\<lparr>creatingPR := False\<rparr>, map Fetch reqs)
                     | None \<Rightarrow> (st1\<lparr>creatingPR := False\<rparr>, map Fetch reqs))
                | Inl err \<Rightarrow>
                    (st1\<lparr>TaskDetails.error := Some (error_message err), creatingPR := False\<rparr>,
                     map Fetch reqs))
      | _ \<Rightarrow> (st, []))"

text \<open>\<open>sendFeedback\<close>; \<open>now\<close> is \<open>new Date().toISOString()\<close> at the time of the call.\<close>

definition sendFeedback ::
  "string \<Rightarrow> Backend \<Rightarrow> string \<Rightarrow> TaskDetails \<Rightarrow> TaskDetails \<times> Request list" where
  "sendFeedback baseUrl net now st =
     (case currentTask st of
        None \<Rightarrow> (st, [])
      | Some cur \<Rightarrow>
          if id' cur = [] \<or> trim (TaskDetails.feedback st) = [] then (st, [])
          else
            let st1 = st\<lparr>sendingFeedback := True, TaskDetails.error := None\<rparr>;
                request = \<lparr>FeedbackRequest.feedback = trim (TaskDetails.feedback st)\<rparr>;
                (reqs, r) = ApiClient_sendFeedback baseUrl (net_feedback net) (id' cur) request
            in case r of
                 Inr response \<Rightarrow>
                   if FeedbackResponse.success response then
                     let feedbackTask =
                           \<lparr>id' = feedback_task_id response,
                            Task.task = ''Feedback: '' @ FeedbackRequest.feedback request,
                            Task.status = running,
                            start_time = now,
                            end_time = Null,
                            output' = Undefined,
                            Task.error = Undefined,
                            return_code = None,
                            temp_dir = None,
                            session_id = session_id cur,
                            original_task = None,
                            feedback_history = None\<rparr>
                     in (st1\<lparr>showFeedbackModal := False,
                              TaskDetails.feedback := [],
                              feedbackTaskId := Some (feedback_task_id response),
                              showFeedbackSuccess := True,
                              currentTask := Some feedbackTask,
                              taskContent := None,
                              sendingFeedback := False\<rparr>, reqs)
                   else (st1\<lparr>sendingFeedback := False\<rparr>, reqs)
               | Inl err \<Rightarrow>
                   (st1\<lparr>TaskDetails.error := Some (error_message err), sendingFeedback := False\<rparr>,
                    reqs))"

subsection \<open>The classification of a parsed diff file\<close>

record DiffFile =
  oldPath :: "string option"
  newPath :: "string option"

datatype FileType = Add | Delete | Rename | Modify

definition getFileType :: "DiffFile \<Rightarrow> FileType" where
  "getFileType file =
     (let old = or_default (oldPath file) ''/dev/null'';
          new = or_default (newPath file) ''/dev/null''
      in if old = ''/dev/null'' then Add
         else if new = ''/dev/null'' then Delete
         else if old \<noteq> new then Rename
         else Modify)"

section \<open>The polling hook (usePolling)\<close>

text \<open>
  One instance of the hook. \<open>savedCallback\<close> is the ref (\<open>None\<close> is the empty function it
  starts with); \<open>callback_dep\<close> and \<open>timer_deps\<close> are the dependencies of the two effects
  at their last run; \<open>timer\<close> is the interval timer the second effect has set and its
  cleanup will clear, with its period; \<open>next_timer_id\<close> is the next identifier
  \<open>setInterval\<close> hands out.
\<close>

record 'cb PollingHook =
  savedCallback :: "'cb option"
  callback_dep :: "'cb option"
  timer_deps :: "(nat \<times> bool) option"
  timer :: "(nat \<times> nat) option"
  next_timer_id :: nat

definition initial_hook :: "nat \<Rightarrow> 'cb PollingHook" where
  "initial_hook n =
     \<lparr>savedCallback = None, callback_dep = None, timer_deps = None, timer = None,
      next_timer_id = n\<rparr>"

text \<open>
  A render of the owner with its effects: an effect runs when one of its dependencies has
  changed, after the cleanup of its previous run. \<open>enabled\<close> defaults to true.
\<close>

definition usePolling :: "'cb \<Rightarrow> nat \<Rightarrow> bool option \<Rightarrow> 'cb PollingHook \<Rightarrow> 'cb PollingHook" where
  "usePolling callback interval enabled_opt h =
     (let enabled = (case enabled_opt of None \<Rightarrow> True | Some b \<Rightarrow> b);
          h1 = (if callback_dep h = Some callback then h
                else h\<lparr>savedCallback := Some callback, callback_dep := Some callback\<rparr>)
      in if timer_deps h1 = Some (interval, enabled) then h1
         else
           let h2 = h1\<lparr>timer := None, timer_deps := Some (interval, enabled)\<rparr>
           in if \<not> enabled then h2
              else h2\<lparr>timer := Some (next_timer_id h2, interval),
                      next_timer_id := Suc (next_timer_id h2)\<rparr>)"

text \<open>The timer fires: \<open>tick\<close> calls the saved callback. The result is the callback called.\<close>

definition tick :: "'cb PollingHook \<Rightarrow> 'cb option" where
  "tick h = (case timer h of None \<Rightarrow> None | Some _ \<Rightarrow> savedCallback h)"

text \<open>Tearing the owner down runs the cleanup; a later mount starts a new instance.\<close>

definition unmount :: "'cb PollingHook \<Rightarrow> 'cb PollingHook" where
  "unmount h = initial_hook (next_timer_id h)"

datatype 'cb hook_event = Render 'cb nat "bool option" | Unmount

fun hook_step :: "'cb PollingHook \<Rightarrow> 'cb hook_event \<Rightarrow> 'cb PollingHook" where
  "hook_step h (Render callback interval enabled_opt) = usePolling callback interval enabled_opt h"
| "hook_step h Unmount = unmount h"

definition run_hook :: "'cb hook_event list \<Rightarrow> 'cb PollingHook" where
  "run_hook es = foldl hook_step (initial_hook 0) es"

text \<open>What holds of the hook after any history of renders and teardowns.\<close>

definition hook_inv :: "'cb PollingHook \<Rightarrow> bool" where
  "hook_inv h =
     (savedCallback h = callback_dep h \<and>
      (case timer_deps h of
         None \<Rightarrow> timer h = None
       | Some (n, e) \<Rightarrow> if e then (case timer h of None \<Rightarrow> False | Some (i, m) \<Rightarrow> m = n)
                        else timer h = None))"

section \<open>Concrete inputs\<close>

definition ex_task :: Task where
  "ex_task =
     \<lparr>id' = ''abc123'', Task.task = ''add README'', Task.status = completed,
      start_time = ''2024-01-01T00:00:00.000Z'', end_time = Val ''2024-01-01T00:01:00.000Z'',
      output' = Val ''done'', Task.error = Undefined, return_code = Some 0, temp_dir = None,
      session_id = Some ''sess-1'', original_task = None, feedback_history = None\<rparr>"

definition ex_panel :: TaskDetails where
  "ex_panel =
     \<lparr>TaskDetails.task = Some ex_task, currentTask = Some ex_task, taskContent = None,
      TaskDetails.loading = False, filesLoading = False, TaskDetails.error = None,
      isMounted = True, deleting = False, showDeleteConfirm = False, showPRModal = False,
      creatingPR = False, prTitle = [], prBody = [], showFeedbackModal = True,
      TaskDetails.feedback = ''fix the typo'', sendingFeedback = False,
      showFeedbackSuccess = False, feedbackTaskId = None\<rparr>"

definition ex_files_content :: TaskContentResponse where
  "ex_files_content =
     \<lparr>TaskContentResponse.task_id = ''abc123'', is_git_repo = True, content_type = files,
      TaskContentResponse.content = Some (Files []), TaskContentResponse.count = Some 0\<rparr>"

definition ex_backend :: Backend where
  "ex_backend =
     \<lparr>net_execute = (\<lambda>_. \<lparr>ok = True, Response.status = 200,
                           json = Inr \<lparr>ExecuteTaskResponse.task_id = ''abc123'',
                                   ExecuteTaskResponse.message = ''started''\<rparr>\<rparr>),
      net_status = (\<lambda>_. \<lparr>ok = True, Response.status = 200, json = Inr ex_task\<rparr>),
      net_tasks = (\<lambda>_. \<lparr>ok = True, Response.status = 200,
                         json = Inr \<lparr>TaskListResponse.tasks = [ex_task], total = 1\<rparr>\<rparr>),
      net_running = (\<lambda>_. \<lparr>ok = True, Response.status = 200,
                           json = Inr \<lparr>running_tasks = [ex_task\<lparr>Task.status := running\<rparr>],
                                   RunningTasksData.count = 1\<rparr>\<rparr>),
      net_completed = (\<lambda>_. \<lparr>ok = False, Response.status = 503,
                             json = Inr \<lparr>completed_tasks = [], CompletedTasksData.count = 0\<rparr>\<rparr>),
      net_content = (\<lambda>_. \<lparr>ok = True, Response.status = 200, json = Inr ex_files_content\<rparr>),
      net_delete = (\<lambda>_. \<lparr>ok = False, Response.status = 404,
                          json = Inr \<lparr>DeleteTaskResponse.message = [],
                                  DeleteTaskResponse.task_id = []\<rparr>\<rparr>),
      net_create_pr = (\<lambda>_. \<lparr>ok = False, Response.status = 400,
                             json = Inr \<lparr>CreatePRResponse.success = False, pr_url = None,
                                     pr_number = None, branch_name = None,
                                     CreatePRResponse.message = None,
                                     CreatePRResponse.error = Some ''No changes to commit''\<rparr>\<rparr>),
      net_feedback = (\<lambda>_. \<lparr>ok = True, Response.status = 200,
                            json = Inr \<lparr>FeedbackResponse.success = True,
                                    feedback_task_id = ''fb-456'',
                                    FeedbackResponse.message = ''queued'',
                                    FeedbackResponse.error = None\<rparr>\<rparr>)\<rparr>"

definition ex_form :: TaskForm where
  "ex_form = \<lparr>TaskForm.task = ''add README'', selectedRepo = ''octo/repo'', isSubmitting = False,
              TaskForm.error = None, TaskForm.success = None\<rparr>"

definition ex_list :: TasksList where
  "ex_list = \<lparr>TasksList.tasks = [], TasksList.loading = True, TasksList.error = None,
              filter' = filter_running\<rparr>"

definition ex_running_panel :: TaskDetails where
  "ex_running_panel =
     ex_panel\<lparr>currentTask :=
       Some (ex_task\<lparr>Task.status := running, end_time := Null, output' := Undefined,
                     return_code := None\<rparr>)\<rparr>"







section \<open>The classification of diff files\<close>

text \<open>
  C3. With a missing (or empty) old or new path replaced by \<open>/dev/null\<close>, a parsed diff
  file is classified \<open>add\<close> exactly when the old path is \<open>/dev/null\<close>; otherwise
  \<open>delete\<close> exactly when the new path is \<open>/dev/null\<close>; otherwise \<open>rename\<close> exactly
  when the two paths differ, and \<open>modify\<close> exactly when they are equal.
\<close>

theorem getFileType_classification:
  "(getFileType file = Add \<longleftrightarrow> or_default (oldPath file) ''/dev/null'' = ''/dev/null'') \<and>
   (getFileType file = Delete \<longleftrightarrow>
      or_default (oldPath file) ''/dev/null'' \<noteq> ''/dev/null'' \<and>
      or_default (newPath file) ''/dev/null'' = ''/dev/null'') \<and>
   (getFileType file = Rename \<longleftrightarrow>
      or_default (oldPath file) ''/dev/null'' \<noteq> ''/dev/null'' \<and>
      or_default (newPath file) ''/dev/null'' \<noteq> ''/dev/null'' \<and>
      or_default (oldPath file) ''/dev/null'' \<noteq> or_default (newPath file) ''/dev/null'') \<and>
   (getFileType file = Modify \<longleftrightarrow>
      or_default (oldPath file) ''/dev/null'' \<noteq> ''/dev/null'' \<and>
      or_default (oldPath file) ''/dev/null'' = or_default (newPath file) ''/dev/null'') \<and>
   or_default None ''/dev/null'' = ''/dev/null''"
  unfolding getFileType_def Let_def by (auto simp: or_default_def)

theorem getFileType_classification_witness:
  "getFileType \<lparr>oldPath = None, newPath = Some ''README.md''\<rparr> = Add \<and>
   getFileType \<lparr>oldPath = Some ''a.txt'', newPath = None\<rparr> = Delete \<and>
   getFileType \<lparr>oldPath = Some ''a.txt'', newPath = Some ''b.txt''\<rparr> = Rename \<and>
   getFileType \<lparr>oldPath = Some ''a.txt'', newPath = Some ''a.txt''\<rparr> = Modify"
  using getFileType_classification [of "\<lparr>oldPath = None, newPath = Some ''README.md''\<rparr>"]
        getFileType_classification [of "\<lparr>oldPath = Some ''a.txt'', newPath = None\<rparr>"]
        getFileType_classification [of "\<lparr>oldPath = Some ''a.txt'', newPath = Some ''b.txt''\<rparr>"]
        getFileType_classification [of "\<lparr>oldPath = Some ''a.txt'', newPath = Some ''a.txt''\<rparr>"]
  by (simp add: or_default_def)

section \<open>The Create PR button\<close>

text \<open>
  C5, as amended. The Create PR button is enabled only when the loaded content carries the
  flag \<open>is_git_repo\<close>, the session holds a non-empty access token and the status of the
  displayed task is \<open>completed\<close> or \<open>failed\<close> (and neither a pull request is being
  created nor the panel is loading). The guard reads \<open>is_git_repo\<close>, not the content tag.
  Without an access token \<open>createPullRequest\<close> itself does nothing.
\<close>

theorem createPR_enabled_only_when:
  "(createPR_enabled accessToken st \<longrightarrow>
      (\<exists>c. taskContent st = Some c \<and> is_git_repo c) \<and>
      (\<exists>token. accessToken = Some token \<and> token \<noteq> []) \<and>
      (\<exists>t. currentTask st = Some t \<and> terminal (Task.status t)) \<and>
      \<not> creatingPR st \<and> \<not> TaskDetails.loading st) \<and>
   (\<not> truthy accessToken \<longrightarrow> createPullRequest baseUrl net accessToken st = (st, []))"
  by (auto simp: createPR_enabled_def showCreatePR_def truthy_def terminal_def
        createPullRequest_def split: option.splits)

theorem createPR_enabled_only_when_witness:
  "createPR_enabled (Some ''gho_token'') (ex_panel\<lparr>taskContent := Some ex_files_content\<rparr>) \<and>
   (\<exists>c. taskContent (ex_panel\<lparr>taskContent := Some ex_files_content\<rparr>) = Some c \<and> is_git_repo c) \<and>
   createPullRequest ''http://localhost:8080'' ex_backend None ex_panel = (ex_panel, [])"
proof -
  have h: "createPR_enabled (Some ''gho_token'') (ex_panel\<lparr>taskContent := Some ex_files_content\<rparr>)"
    by (simp add: createPR_enabled_def showCreatePR_def truthy_def ex_panel_def ex_task_def
                  ex_files_content_def)
  have n: "\<not> truthy None" by (simp add: truthy_def)
  from h n
    createPR_enabled_only_when [of "Some ''gho_token''"
      "ex_panel\<lparr>taskContent := Some ex_files_content\<rparr>"]
    createPR_enabled_only_when [of None ex_panel "''http://localhost:8080''" ex_backend]
  show ?thesis by blast
qed

text \<open>
  The button is enabled on a terminal task whose content is a file listing of a git
  repository: the content tag is \<open>files\<close>, not \<open>diff\<close>.
\<close>

theorem createPR_enabled_files_counterexample:
  "createPR_enabled (Some ''gho_token'') (ex_panel\<lparr>taskContent := Some ex_files_content\<rparr>) \<and>
   map_option content_type (taskContent (ex_panel\<lparr>taskContent := Some ex_files_content\<rparr>))
     = Some files"
  by (simp add: createPR_enabled_def showCreatePR_def truthy_def ex_panel_def ex_task_def
                ex_files_content_def)

section \<open>The API client\<close>




section \<open>The submission form\<close>

lemma trim_empty_iff: "trim s = [] \<longleftrightarrow> (\<forall>c \<in> set s. is_whitespace c)"
proof
  assume "trim s = []"
  then have a: "\<forall>x \<in> set (dropWhile is_whitespace s). is_whitespace x"
    by (simp add: trim_def)
  have "dropWhile is_whitespace s = []"
  proof (rule ccontr)
    assume n: "dropWhile is_whitespace s \<noteq> []"
    then have "\<not> is_whitespace (hd (dropWhile is_whitespace s))" by (rule hd_dropWhile)
    moreover from n have "hd (dropWhile is_whitespace s) \<in> set (dropWhile is_whitespace s)" by simp
    ultimately show False using a by blast
  qed
  then show "\<forall>c \<in> set s. is_whitespace c" by simp
next
  assume "\<forall>c \<in> set s. is_whitespace c"
  then show "trim s = []" by (auto simp: trim_def dest: set_dropWhileD)
qed

lemma trim_idem_example: "trim ''add README'' = ''add README''"
  by (simp add: trim_def is_whitespace_def)

text \<open>
  C8. Submitting the task text \<open>add README\<close> with the repository \<open>octo/repo\<close> issues
  \<open>POST /execute\<close> with the JSON body \<open>{"task":"add README","repository":"octo/repo"}\<close>.
  On a successful response the text field is cleared, the success message shows the
  returned \<open>task_id\<close> and the submitted-callback (when given) is invoked with it; on a
  failed response, or a body that is not JSON, the error is shown and the text is kept.
\<close>

theorem handleSubmit_scenario:
  \<open>TaskForm.task st = ''add README'' \<Longrightarrow> selectedRepo st = ''octo/repo'' \<Longrightarrow>
   (\<exists>request response.
      request = \<lparr>url = baseUrl @ ''/execute'', method' = ''POST'',
                 headers = [(''Content-Type'', ''application/json'')],
                 body = Some ''{"task":"add README","repository":"octo/repo"}''\<rparr> \<and>
      response = net_execute net request \<and>
      (\<forall>parsed. ok response \<and> json response = Inr parsed \<longrightarrow>
         handleSubmit baseUrl net onTaskSubmitted st =
           (st\<lparr>isSubmitting := False, TaskForm.error := None,
               TaskForm.success := Some (''Task submitted successfully! ID: ''
                                         @ ExecuteTaskResponse.task_id parsed),
               TaskForm.task := []\<rparr>,
            Fetch request #
            (if onTaskSubmitted then [OnTaskSubmitted (ExecuteTaskResponse.task_id parsed)]
             else []))) \<and>
      (\<not> ok response \<longrightarrow>
         handleSubmit baseUrl net onTaskSubmitted st =
           (st\<lparr>isSubmitting := False, TaskForm.success := None,
               TaskForm.error := Some (''HTTP error! status: '' @ show_nat (Response.status response))\<rparr>,
            [Fetch request])) \<and>
      (\<forall>e. ok response \<and> json response = Inl e \<longrightarrow>
         handleSubmit baseUrl net onTaskSubmitted st =
           (st\<lparr>isSubmitting := False, TaskForm.success := None,
               TaskForm.error := Some (error_message e)\<rparr>,
            [Fetch request])))\<close>
  by (simp add: handleSubmit_def ApiClient_executeTask_def post_json_def trim_idem_example
        quote_def escape_char_def http_error_def Let_def)

theorem handleSubmit_scenario_witness:
  \<open>handleSubmit ''http://localhost:8080'' ex_backend True ex_form =
     (ex_form\<lparr>TaskForm.success := Some ''Task submitted successfully! ID: abc123'',
              TaskForm.task := []\<rparr>,
      [Fetch \<lparr>url = ''http://localhost:8080/execute'', method' = ''POST'',
              headers = [(''Content-Type'', ''application/json'')],
              body = Some ''{"task":"add README","repository":"octo/repo"}''\<rparr>,
       OnTaskSubmitted ''abc123''])\<close>
  using handleSubmit_scenario [of ex_form "''http://localhost:8080''" ex_backend True]
  by (simp add: ex_form_def ex_backend_def)

text \<open>
  C10. When the description is empty or consists of white space only, or no repository is
  selected, \<open>handleSubmit\<close> issues no request and returns the form state as it was (and
  the submit button is disabled).
  Otherwise its first effect is \<open>POST /execute\<close> whose body carries the trimmed description
  and the selected repository, and it issues no other request.
\<close>

theorem handleSubmit_trim_and_guard:
  "((\<forall>c \<in> set (TaskForm.task st). is_whitespace c) \<or> selectedRepo st = [] \<longrightarrow>
      handleSubmit baseUrl net onTaskSubmitted st = (st, []) \<and> submit_disabled user st) \<and>
   (\<not> (\<forall>c \<in> set (TaskForm.task st). is_whitespace c) \<and> selectedRepo st \<noteq> [] \<longrightarrow>
      (\<exists>effects.
         snd (handleSubmit baseUrl net onTaskSubmitted st) =
           Fetch \<lparr>url = baseUrl @ ''/execute'', method' = ''POST'',
                  headers = [(''Content-Type'', ''application/json'')],
                  body = Some (JSON_stringify
                           (JObj [(''task'', JStr (trim (TaskForm.task st))),
                                  (''repository'', JStr (selectedRepo st))]))\<rparr> # effects \<and>
         (\<forall>e \<in> set effects. \<forall>r. e \<noteq> Fetch r)))"
  by (auto simp: handleSubmit_def ApiClient_executeTask_def post_json_def trim_empty_iff
        submit_disabled_def Let_def split: sum.splits)

theorem handleSubmit_trim_and_guard_witness:
  \<open>handleSubmit ''http://localhost:8080'' ex_backend True (ex_form\<lparr>TaskForm.task := ''  ''\<rparr>)
     = (ex_form\<lparr>TaskForm.task := ''  ''\<rparr>, []) \<and>
   hd (snd (handleSubmit ''http://localhost:8080'' ex_backend True
              (ex_form\<lparr>TaskForm.task := '' add README  ''\<rparr>)))
     = Fetch \<lparr>url = ''http://localhost:8080/execute'', method' = ''POST'',
              headers = [(''Content-Type'', ''application/json'')],
              body = Some ''{"task":"add README","repository":"octo/repo"}''\<rparr>\<close>
  using handleSubmit_trim_and_guard [of "ex_form\<lparr>TaskForm.task := ''  ''\<rparr>"
          "''http://localhost:8080''" ex_backend True]
        handleSubmit_trim_and_guard [of "ex_form\<lparr>TaskForm.task := '' add README  ''\<rparr>"
          "''http://localhost:8080''" ex_backend True]
  by (auto simp: ex_form_def is_whitespace_def trim_def quote_def escape_char_def)

section \<open>The task list\<close>

text \<open>
  C9. With the filter \<open>running\<close>, \<open>fetchTasks\<close> issues \<open>GET /running\<close> and the client maps
  the fields \<open>running_tasks\<close> and \<open>count\<close> of the body to \<open>tasks\<close> and \<open>total\<close>; with the
  filter \<open>all\<close> it issues \<open>GET /tasks\<close> and the client returns the body unchanged. In both
  cases the list shows the tasks of the result.
\<close>

theorem fetchTasks_filter:
  "(filter' st = filter_running \<longrightarrow>
      (\<exists>response.
         response = net_running net (get_request (baseUrl @ ''/running'')) \<and>
         snd (fetchTasks baseUrl net st) = [get_request (baseUrl @ ''/running'')] \<and>
         (\<forall>data. ok response \<and> json response = Inr data \<longrightarrow>
            snd (ApiClient_listRunningTasks baseUrl (net_running net)) =
              Inr \<lparr>TaskListResponse.tasks = running_tasks data,
                    total = RunningTasksData.count data\<rparr> \<and>
            TasksList.tasks (fst (fetchTasks baseUrl net st)) = running_tasks data))) \<and>
   (filter' st = filter_all \<longrightarrow>
      (\<exists>response.
         response = net_tasks net (get_request (baseUrl @ ''/tasks'')) \<and>
         snd (fetchTasks baseUrl net st) = [get_request (baseUrl @ ''/tasks'')] \<and>
         (\<forall>parsed. ok response \<and> json response = Inr parsed \<longrightarrow>
            snd (ApiClient_listAllTasks baseUrl (net_tasks net)) = Inr parsed \<and>
            TasksList.tasks (fst (fetchTasks baseUrl net st))
              = TaskListResponse.tasks parsed)))"
  by (simp add: fetchTasks_def ApiClient_listRunningTasks_def ApiClient_listAllTasks_def Let_def
        split: sum.splits)

theorem fetchTasks_filter_witness:
  "fetchTasks ''http://localhost:8080'' ex_backend ex_list =
     (ex_list\<lparr>TasksList.tasks := [ex_task\<lparr>Task.status := running\<rparr>], TasksList.loading := False\<rparr>,
      [\<lparr>url = ''http://localhost:8080/running'', method' = ''GET'', headers = [], body = None\<rparr>])"
  using fetchTasks_filter [of ex_list ex_backend "''http://localhost:8080''"]
  by (simp add: ex_list_def ex_backend_def get_request_def fetchTasks_def
        ApiClient_listRunningTasks_def)

section \<open>Sending feedback\<close>

text \<open>
  C6. When the panel shows a task with a non-empty id, the feedback text is not blank and
  the backend answers the feedback request successfully (\<open>ok\<close>, a body that parses, and
  \<open>success\<close>), then
  \<open>sendFeedback\<close> closes the feedback modal, opens the success modal on the returned
  \<open>feedback_task_id\<close>, and replaces the displayed task by a task with that id, the status
  \<open>running\<close> and the session id of the task the feedback was sent on. Polling is then
  enabled, and a tick of the timer asks for the status of the feedback task.
\<close>

theorem sendFeedback_success:
  assumes "currentTask st = Some cur" and "id' cur \<noteq> []"
    and "trim (TaskDetails.feedback st) \<noteq> []"
    and "response = net_feedback net
           (post_json (baseUrl @ ''/feedback/'' @ id' cur)
              (JObj [(''feedback'', JStr (trim (TaskDetails.feedback st)))]))"
    and "ok response" and "json response = Inr parsed" and "FeedbackResponse.success parsed"
  shows "let st' = fst (sendFeedback baseUrl net now st);
             fid = feedback_task_id parsed
         in \<not> showFeedbackModal st' \<and> showFeedbackSuccess st' \<and>
            feedbackTaskId st' = Some fid \<and>
            (\<exists>t. currentTask st' = Some t \<and> id' t = fid \<and> Task.status t = running \<and>
                 session_id t = session_id cur) \<and>
            pollingEnabled st' \<and>
            (fid \<noteq> [] \<and> isMounted st \<longrightarrow>
               (\<forall>net'. \<exists>reqs. snd (poll_tick baseUrl net' st')
                                 = get_request (baseUrl @ ''/status/'' @ fid) # reqs))"
  using assms
  by (auto simp: sendFeedback_def ApiClient_sendFeedback_def FeedbackRequest_json_def Let_def
        pollingEnabled_def poll_tick_def silentRefreshTask_def ApiClient_getTaskStatus_def
        split: sum.splits prod.splits)

theorem sendFeedback_success_witness:
  "(let st' = fst (sendFeedback ''http://localhost:8080'' ex_backend ''2024-01-01T00:02:00.000Z'' ex_panel)
    in \<not> showFeedbackModal st' \<and> showFeedbackSuccess st' \<and>
       feedbackTaskId st' = Some ''fb-456'' \<and>
       map_option id' (currentTask st') = Some ''fb-456'' \<and>
       map_option Task.status (currentTask st') = Some running \<and>
       map_option session_id (currentTask st') = Some (Some ''sess-1'') \<and>
       pollingEnabled st')"
proof -
  have 1: "currentTask ex_panel = Some ex_task" by (simp add: ex_panel_def)
  have 2: "id' ex_task \<noteq> []" by (simp add: ex_task_def)
  have 3: "trim (TaskDetails.feedback ex_panel) \<noteq> []"
    by (simp add: ex_panel_def trim_def is_whitespace_def)
  have 5: "ok (net_feedback ex_backend r)" for r by (simp add: ex_backend_def)
  have 6: "json (net_feedback ex_backend r) =
             Inr \<lparr>FeedbackResponse.success = True, feedback_task_id = ''fb-456'',
                  FeedbackResponse.message = ''queued'', FeedbackResponse.error = None\<rparr>" for r
    by (simp add: ex_backend_def)
  have 7: "FeedbackResponse.success
             \<lparr>FeedbackResponse.success = True, feedback_task_id = ''fb-456'',
              FeedbackResponse.message = ''queued'', FeedbackResponse.error = None\<rparr>"
    by simp
  have 8: "session_id ex_task = Some ''sess-1''" by (simp add: ex_task_def)
  from sendFeedback_success [OF 1 2 3 refl 5 6 7, of "''http://localhost:8080''"
      "''2024-01-01T00:02:00.000Z''"]
  show ?thesis by (auto simp: Let_def 8)
qed

section \<open>The polling hook\<close>

lemma usePolling_inv: "hook_inv h \<Longrightarrow> hook_inv (usePolling cb n e h)"
  by (auto simp: hook_inv_def usePolling_def Let_def split: option.splits if_splits prod.splits)

lemma unmount_inv: "hook_inv (unmount h)"
  by (simp add: hook_inv_def unmount_def initial_hook_def)

lemma hook_step_inv: "hook_inv h \<Longrightarrow> hook_inv (hook_step h ev)"
  by (cases ev) (simp_all add: usePolling_inv unmount_inv)

lemma foldl_hook_inv: "hook_inv h \<Longrightarrow> hook_inv (foldl hook_step h es)"
  by (induction es arbitrary: h) (simp_all add: hook_step_inv)

lemma run_hook_inv: "hook_inv (run_hook es)"
  unfolding run_hook_def by (rule foldl_hook_inv) (simp add: hook_inv_def initial_hook_def)

lemma usePolling_enabled:
  assumes "hook_inv h" and "e = None \<or> e = Some True"
  shows "(\<exists>i. timer (usePolling cb n e h) = Some (i, n)) \<and> tick (usePolling cb n e h) = Some cb"
  using assms
  by (auto simp: hook_inv_def usePolling_def tick_def Let_def split: option.splits if_splits prod.splits)

lemma usePolling_disabled:
  assumes "hook_inv h"
  shows "timer (usePolling cb n (Some False) h) = None \<and> tick (usePolling cb n (Some False) h) = None"
  using assms
  by (auto simp: hook_inv_def usePolling_def tick_def Let_def split: option.splits if_splits prod.splits)

lemma usePolling_callback_change:
  "hook_inv h \<Longrightarrow>
   timer (usePolling cb' n e (usePolling cb n e h)) = timer (usePolling cb n e h) \<and>
   next_timer_id (usePolling cb' n e (usePolling cb n e h)) = next_timer_id (usePolling cb n e h) \<and>
   savedCallback (usePolling cb' n e (usePolling cb n e h)) = Some cb'"
  by (auto simp: hook_inv_def usePolling_def Let_def split: option.splits)

text \<open>
  C7. After any history of renders and teardowns, a render with \<open>enabled\<close> true (or left
  out) leaves a timer of the given period set, and its tick calls the callback of that
  render. A further render that changes only the callback leaves the same timer in place
  (no timer is cleared and none is created), and the tick calls the new callback. A render
  with \<open>enabled\<close> false leaves no timer, and neither does tearing the owner down.
\<close>

theorem usePolling_timer:
  "let h = run_hook es; h1 = usePolling cb n e h; h2 = usePolling cb' n e h1
   in (e \<noteq> Some False \<longrightarrow> (\<exists>i. timer h1 = Some (i, n)) \<and> tick h1 = Some cb) \<and>
      timer h2 = timer h1 \<and> next_timer_id h2 = next_timer_id h1 \<and>
      (e \<noteq> Some False \<longrightarrow> tick h2 = Some cb') \<and>
      (e = Some False \<longrightarrow> timer h1 = None \<and> tick h1 = None) \<and>
      timer (unmount h1) = None \<and> tick (unmount h1) = None"
proof -
  have inv: "hook_inv (run_hook es)" by (rule run_hook_inv)
  have en: "e \<noteq> Some False \<Longrightarrow> e = None \<or> e = Some True" by (cases e) auto
  show ?thesis
    using usePolling_enabled [OF inv, of e cb n] usePolling_disabled [OF inv, of cb n]
      usePolling_callback_change [OF inv, of cb' n e cb] en
    by (auto simp: Let_def tick_def unmount_def initial_hook_def)
qed

theorem usePolling_timer_witness:
  "(let h = run_hook [Render (1::nat) 1000 (Some False), Render 2 1000 (Some True)];
        h1 = usePolling 3 1000 (Some True) h; h2 = usePolling 4 1000 (Some True) h1
    in timer h1 = Some (0, 1000) \<and> tick h1 = Some 3 \<and> timer h2 = Some (0, 1000) \<and>
       tick h2 = Some 4 \<and> timer (usePolling 5 1000 (Some False) h2) = None)"
  using usePolling_timer [of "[Render (1::nat) 1000 (Some False), Render 2 1000 (Some True)]"
          3 1000 "Some True" 4]
  by (simp add: run_hook_def usePolling_def initial_hook_def tick_def Let_def)

section \<open>Silent refresh: the change check\<close>

































lemma fetchTaskData_keeps:
  "currentTask (fst (fetchTaskData baseUrl net st)) = currentTask st \<and>
   TaskDetails.task (fst (fetchTaskData baseUrl net st)) = TaskDetails.task st \<and>
   isMounted (fst (fetchTaskData baseUrl net st)) = isMounted st"
  by (auto simp: fetchTaskData_def ApiClient_getTaskContent_def Let_def
           split: option.splits sum.splits)




section \<open>Silent refresh: content fetches along a run of polls\<close>

lemma content_request_is:
  "is_content_request baseUrl
     (get_request (baseUrl @ CHR ''/'' # CHR ''c'' # CHR ''o'' # CHR ''n'' # CHR ''t'' #
                   CHR ''e'' # CHR ''n'' # CHR ''t'' # CHR ''/'' # x))"
  by (simp add: is_content_request_def get_request_def)

lemma status_request_is_not:
  "\<not> is_content_request baseUrl (get_request (baseUrl @ CHR ''/'' # CHR ''s'' # x))"
  by (simp add: is_content_request_def get_request_def)

lemma fetchTaskData_requests:
  assumes "TaskDetails.task st = Some t" and "id' t \<noteq> []" and "isMounted st"
  shows "snd (fetchTaskData baseUrl net st) = [get_request (baseUrl @ ''/content/'' @ id' t)]"
  using assms
  by (auto simp: fetchTaskData_def ApiClient_getTaskContent_def Let_def split: sum.splits)

lemma silentRefreshTask_keeps:
  "TaskDetails.task (fst (silentRefreshTask baseUrl net st)) = TaskDetails.task st \<and>
   isMounted (fst (silentRefreshTask baseUrl net st)) = isMounted st"
  by (simp add: silentRefreshTask_def ApiClient_getTaskStatus_def Let_def fetchTaskData_keeps
           split_def split: option.splits sum.splits)

lemma poll_tick_keeps:
  "TaskDetails.task (fst (poll_tick baseUrl net st)) = TaskDetails.task st"
  by (simp add: poll_tick_def silentRefreshTask_keeps)

text \<open>A poll that fetches no status leaves the panel as it was and issues no content request.\<close>

lemma silentRefreshTask_no_answer:
  assumes "fetched_status baseUrl net st = None"
  shows "fst (silentRefreshTask baseUrl net st) = st \<and>
         content_fetches baseUrl (snd (silentRefreshTask baseUrl net st)) = 0"
  using assms
  by (auto simp: fetched_status_def silentRefreshTask_def ApiClient_getTaskStatus_def Let_def
        content_fetches_def status_request_is_not split: option.splits if_splits sum.splits)

text \<open>
  A poll that fetches a status: the displayed status is the fetched one afterwards, and
  the content is requested exactly when the fetched status is terminal and not the
  displayed one.
\<close>

lemma silentRefreshTask_answer:
  assumes "TaskDetails.task st = Some t" and "id' t \<noteq> []"
    and "currentTask st = Some cur" and "fetched_status baseUrl net st = Some s"
  shows "displayed_status (fst (silentRefreshTask baseUrl net st)) = Some s \<and>
         content_fetches baseUrl (snd (silentRefreshTask baseUrl net st)) =
           (if s \<noteq> Task.status cur \<and> terminal s then 1 else 0)"
proof -
  let ?req = "get_request (baseUrl @ ''/status/'' @ id' cur)"
  let ?resp = "net_status net ?req"
  from assms(3,4) have g: "id' cur \<noteq> []" "isMounted st" "ok ?resp"
    by (auto simp: fetched_status_def Let_def split: if_splits sum.splits)
  from assms(3,4) g obtain upd where upd: "json ?resp = Inr upd" "Task.status upd = s"
    by (auto simp: fetched_status_def Let_def split: if_splits sum.splits)
  have api: "ApiClient_getTaskStatus baseUrl (net_status net) (id' cur) = ([?req], Inr upd)"
    using g upd by (simp add: ApiClient_getTaskStatus_def)
  let ?st1 = "st\<lparr>currentTask := Some upd\<rparr>"
  show ?thesis
  proof (cases "hasChanges upd cur")
    case False
    then have same: "s = Task.status cur" using upd by (auto simp: hasChanges_def)
    from False assms(3) g have eq: "silentRefreshTask baseUrl net st = (st, [?req])"
      by (simp add: silentRefreshTask_def api)
    have "content_fetches baseUrl [?req] = 0"
      by (simp add: content_fetches_def status_request_is_not)
    with same assms(3) show ?thesis unfolding eq by (simp add: displayed_status_def)
  next
    case True
    show ?thesis
    proof (cases "s \<noteq> Task.status cur \<and> terminal s")
      case tr: True
      have m: "TaskDetails.task ?st1 = Some t" "isMounted ?st1" using assms g by simp_all
      from True tr assms(3) g upd
      have eq: "silentRefreshTask baseUrl net st =
                (fst (fetchTaskData baseUrl net ?st1), ?req # snd (fetchTaskData baseUrl net ?st1))"
        by (auto simp: silentRefreshTask_def api terminal_def split: prod.splits)
      have fd: "snd (fetchTaskData baseUrl net ?st1) = [get_request (baseUrl @ ''/content/'' @ id' t)]"
        by (rule fetchTaskData_requests [OF m(1) assms(2) m(2)])
      have cf: "content_fetches baseUrl (snd (silentRefreshTask baseUrl net st)) = 1"
        unfolding eq snd_conv fd
        by (simp add: content_fetches_def status_request_is_not content_request_is)
      have ds: "displayed_status (fst (silentRefreshTask baseUrl net st)) = Some s"
        unfolding eq fst_conv using upd by (simp add: displayed_status_def fetchTaskData_keeps)
      show ?thesis unfolding cf ds using tr by simp
    next
      case nt: False
      with True assms(3) g upd have eq: "silentRefreshTask baseUrl net st = (?st1, [?req])"
        by (auto simp: silentRefreshTask_def api terminal_def)
      have "content_fetches baseUrl [?req] = 0"
        by (simp add: content_fetches_def status_request_is_not)
      with nt upd show ?thesis unfolding eq by (simp add: displayed_status_def)
    qed
  qed
qed

lemma enabled_running:
  "pollingEnabled st \<longleftrightarrow> (\<exists>cur. currentTask st = Some cur \<and> Task.status cur = running)"
  by (auto simp: pollingEnabled_def split: option.splits)

lemma poll_tick_fetched:
  assumes "TaskDetails.task st = Some t" and "id' t \<noteq> []"
  shows "content_fetches baseUrl (snd (poll_tick baseUrl net st)) =
           (if fetched_transition baseUrl net st then 1 else 0) \<and>
         (fetched_transition baseUrl net st \<longrightarrow>
            displayed_status (fst (poll_tick baseUrl net st)) = fetched_status baseUrl net st \<and>
            \<not> pollingEnabled (fst (poll_tick baseUrl net st)))"
proof (cases "pollingEnabled st")
  case False
  then show ?thesis by (simp add: poll_tick_def fetched_transition_def content_fetches_def)
next
  case True
  then obtain cur where cur: "currentTask st = Some cur" "Task.status cur = running"
    using enabled_running by blast
  show ?thesis
  proof (cases "fetched_status baseUrl net st")
    case None
    with True silentRefreshTask_no_answer [OF None] show ?thesis
      by (simp add: poll_tick_def fetched_transition_def)
  next
    case (Some s)
    have ts: "s \<noteq> running \<and> terminal s \<longleftrightarrow> terminal s" by (auto simp: terminal_def)
    from silentRefreshTask_answer [OF assms cur(1) Some] True Some cur(2) ts
    show ?thesis
      by (auto simp: poll_tick_def fetched_transition_def pollingEnabled_def displayed_status_def
            terminal_def split: option.splits)
  qed
qed

lemma content_fetches_append:
  "content_fetches baseUrl (xs @ ys) = content_fetches baseUrl xs + content_fetches baseUrl ys"
  by (simp add: content_fetches_def)

lemma run_polls_not_running:
  "\<not> pollingEnabled st \<Longrightarrow> run_polls baseUrl st nets = (st, [])"
  by (induction nets) (simp_all add: poll_tick_def)

lemma fetched_transitions_not_running:
  "\<not> pollingEnabled st \<Longrightarrow> fetched_transitions baseUrl st nets = 0"
  by (induction nets) (simp_all add: poll_tick_def fetched_transition_def)

lemma run_polls_split:
  "content_fetches baseUrl (snd (run_polls baseUrl st (net # nets))) =
     content_fetches baseUrl (snd (poll_tick baseUrl net st))
     + content_fetches baseUrl (snd (run_polls baseUrl (fst (poll_tick baseUrl net st)) nets))"
  by (simp add: content_fetches_append split: prod.splits)

lemma run_polls_fetched:
  assumes "TaskDetails.task st = Some t" and "id' t \<noteq> []"
  shows "content_fetches baseUrl (snd (run_polls baseUrl st nets)) =
           fetched_transitions baseUrl st nets"
  using assms
proof (induction nets arbitrary: st)
  case Nil
  then show ?case by (simp add: content_fetches_def)
next
  case (Cons net nets)
  let ?st1 = "fst (poll_tick baseUrl net st)"
  have t1: "TaskDetails.task ?st1 = Some t" using Cons.prems by (simp add: poll_tick_keeps)
  show ?case
    unfolding run_polls_split
    using poll_tick_fetched [OF Cons.prems, of baseUrl net] Cons.IH [OF t1 Cons.prems(2)]
    by simp
qed

lemma fetched_transitions_le: 
  assumes "TaskDetails.task st = Some t" and "id' t \<noteq> []"
  shows "fetched_transitions baseUrl st nets \<le> 1"
  using assms
proof (induction nets arbitrary: st)
  case Nil
  then show ?case by simp
next
  case (Cons net nets)
  let ?st1 = "fst (poll_tick baseUrl net st)"
  have t1: "TaskDetails.task ?st1 = Some t" using Cons.prems by (simp add: poll_tick_keeps)
  show ?case
  proof (cases "fetched_transition baseUrl net st")
    case True
    with poll_tick_fetched [OF Cons.prems, of baseUrl net] have "\<not> pollingEnabled ?st1" by blast
    then have "fetched_transitions baseUrl ?st1 nets = 0" by (rule fetched_transitions_not_running)
    with True show ?thesis by simp
  next
    case False
    with Cons.IH [OF t1 Cons.prems(2)] show ?thesis by simp
  qed
qed

text \<open>
  C2, as amended. The panel shows a task selected through its \<open>task\<close> property, with a
  non-empty id, and every poll settles before the next tick. A tick requests the content
  exactly when it meets a transition: the displayed task is running and the poll fetches
  a terminal status. The panel then shows the fetched status and later ticks issue no
  request. Along any run of ticks, against any backends, the number of content requests
  is the number of transitions met, and it is at most one; once the displayed status is
  terminal the ticks issue no request at all.
\<close>

theorem silent_polls_content_fetches:
  assumes "TaskDetails.task st = Some t" and "id' t \<noteq> []"
  shows "content_fetches baseUrl (snd (run_polls baseUrl st nets)) =
           fetched_transitions baseUrl st nets \<and>
         fetched_transitions baseUrl st nets \<le> 1 \<and>
         content_fetches baseUrl (snd (poll_tick baseUrl net st)) =
           (if fetched_transition baseUrl net st then 1 else 0) \<and>
         (fetched_transition baseUrl net st \<longrightarrow>
            displayed_status (fst (poll_tick baseUrl net st)) = fetched_status baseUrl net st \<and>
            run_polls baseUrl (fst (poll_tick baseUrl net st)) nets
              = (fst (poll_tick baseUrl net st), [])) \<and>
         ((case displayed_status st of Some s \<Rightarrow> terminal s | None \<Rightarrow> False) \<longrightarrow>
            run_polls baseUrl st nets = (st, []))"
proof -
  have "(case displayed_status st of Some s \<Rightarrow> terminal s | None \<Rightarrow> False) \<Longrightarrow>
        \<not> pollingEnabled st"
    by (auto simp: displayed_status_def pollingEnabled_def terminal_def split: option.splits)
  then show ?thesis
    using run_polls_fetched [OF assms, of baseUrl nets] fetched_transitions_le [OF assms, of baseUrl nets]
      poll_tick_fetched [OF assms, of baseUrl net]
    by (simp add: run_polls_not_running)
qed

lemma ex_transition: "fetched_transition ''http://localhost:8080'' ex_backend ex_running_panel"
  by (simp add: fetched_transition_def fetched_status_def pollingEnabled_def terminal_def
        ex_running_panel_def ex_panel_def ex_task_def ex_backend_def Let_def)

theorem silent_polls_content_fetches_witness:
  "fetched_transition ''http://localhost:8080'' ex_backend ex_running_panel \<and>
   content_fetches ''http://localhost:8080''
     (snd (run_polls ''http://localhost:8080'' ex_running_panel [ex_backend, ex_backend])) = 1 \<and>
   displayed_status (fst (poll_tick ''http://localhost:8080'' ex_backend ex_running_panel))
     = Some completed"
proof -
  have 1: "TaskDetails.task ex_running_panel = Some ex_task"
    by (simp add: ex_running_panel_def ex_panel_def)
  have 2: "id' ex_task \<noteq> []" by (simp add: ex_task_def)
  have 3: "fetched_status ''http://localhost:8080'' ex_backend ex_running_panel = Some completed"
    by (simp add: fetched_status_def ex_running_panel_def ex_panel_def ex_task_def
          ex_backend_def Let_def)
  have 4: "fetched_transitions ''http://localhost:8080'' ex_running_panel [ex_backend, ex_backend] \<ge> 1"
    using ex_transition by simp
  from silent_polls_content_fetches [OF 1 2, of "''http://localhost:8080''"
      "[ex_backend, ex_backend]" ex_backend] ex_transition 3 4
  show ?thesis by simp
qed

text \<open>
  Two polls in flight together, both answered \<open>completed\<close>: one transition, and the content
  is requested twice.
\<close>

theorem overlapping_polls_counterexample:
  "fetched_transitions ''http://localhost:8080'' ex_running_panel [ex_backend] = 1 \<and>
   content_fetches ''http://localhost:8080''
     (overlapping_requests ''http://localhost:8080'' ex_backend ex_backend ex_running_panel) = 2"
  by (simp add: overlapping_requests_def fetched_transition_def fetched_status_def
        pollingEnabled_def terminal_def silentRefreshTask_def ApiClient_getTaskStatus_def
        hasChanges_def fetchTaskData_def ApiClient_getTaskContent_def content_fetches_def
        is_content_request_def get_request_def JSON_stringify_opt_def
        ex_running_panel_def ex_panel_def ex_task_def ex_backend_def Let_def)

end
